theory Spec2Isabelle
  imports Main
begin

section \<open>JavaScript values as the stream client sees them\<close>

text \<open>
  The client (\<^verbatim>\<open>queryAgentStream\<close> in the API module, and the page-lifecycle handlers of
  \<^verbatim>\<open>ChatInterface.tsx\<close>) is written in TypeScript and works on values that come out of
  \<^verbatim>\<open>JSON.parse\<close>. A parsed value is a \<open>json\<close>; the JavaScript value \<^verbatim>\<open>undefined\<close>
  (a property that is not there) is \<open>None\<close> of \<open>'n json option\<close>. Numbers are kept
  abstract (type \<open>'n\<close>): the code only ever converts them to text or tests them for
  truthiness, and both are supplied by the platform.

  Text is a \<open>string\<close>. The newline is the single character \<open>CHR 0x0A\<close>; the data marker
  \<^verbatim>\<open>'data: '\<close> is six ASCII characters.
\<close>

datatype 'n json =
    JNull
  | JBool bool
  | JNum 'n
  | JStr string
  | JArr "'n json list"
  | JObj "(string \<times> 'n json) list"

type_synonym 'n jsval = "'n json option"

text \<open>
  What the run-time library provides: \<^verbatim>\<open>JSON.parse\<close> (\<open>None\<close> when it throws a
  SyntaxError), the text of a number, the truthiness of a number, and the message of the
  TypeError raised by reading a property of \<^verbatim>\<open>null\<close>.
\<close>

record 'n platform =
  json_parse :: "string \<Rightarrow> 'n json option"
  num_to_string :: "'n \<Rightarrow> string"
  num_truthy :: "'n \<Rightarrow> bool"
  null_deref_message :: string

text \<open>Property read \<^verbatim>\<open>data.key\<close> on a value that is not \<^verbatim>\<open>null\<close>: only an object has
  the properties the client asks for; on every other value the read gives \<^verbatim>\<open>undefined\<close>.\<close>

fun get_prop :: "'n json \<Rightarrow> string \<Rightarrow> 'n jsval" where
  "get_prop (JObj kvs) k = map_of kvs k"
| "get_prop _ k = None"

text \<open>Truthiness, as \<^verbatim>\<open>||\<close> and \<^verbatim>\<open>!\<close> test it.\<close>

fun truthy :: "('n \<Rightarrow> bool) \<Rightarrow> 'n jsval \<Rightarrow> bool" where
  "truthy nt None = False"
| "truthy nt (Some JNull) = False"
| "truthy nt (Some (JBool b)) = b"
| "truthy nt (Some (JNum n)) = nt n"
| "truthy nt (Some (JStr s)) = (s \<noteq> [])"
| "truthy nt (Some (JArr xs)) = True"
| "truthy nt (Some (JObj kvs)) = True"

text \<open>\<^verbatim>\<open>a || b\<close> where \<open>b\<close> is a defined value: \<open>a\<close> when it is truthy, else \<open>b\<close>.\<close>

definition js_or :: "('n \<Rightarrow> bool) \<Rightarrow> 'n jsval \<Rightarrow> 'n json \<Rightarrow> 'n json" where
  "js_or nt a b = (case a of None \<Rightarrow> b | Some j \<Rightarrow> if truthy nt (Some j) then j else b)"

text \<open>
  The text that \<^verbatim>\<open>s += v\<close> appends for a value \<open>v\<close>, and \<open>None\<close> when the conversion
  throws a TypeError. An object converts through \<^verbatim>\<open>Object.prototype.toString\<close> unless it
  has an own property \<^verbatim>\<open>toString\<close>: a parsed value is never callable, so the conversion
  then finds no method and throws. An array converts through \<^verbatim>\<open>join\<close>: \<^verbatim>\<open>null\<close> elements
  give the empty text, the other elements are converted in turn, and the conversion of
  the array throws when that of an element does.
\<close>

fun join_comma :: "string list \<Rightarrow> string" where
  "join_comma [] = []"
| "join_comma [x] = x"
| "join_comma (x # y # ys) = x @ '','' @ join_comma (y # ys)"

fun to_str :: "('n \<Rightarrow> string) \<Rightarrow> 'n json \<Rightarrow> string option" where
  "to_str ns JNull = Some ''null''"
| "to_str ns (JBool b) = Some (if b then ''true'' else ''false'')"
| "to_str ns (JNum n) = Some (ns n)"
| "to_str ns (JStr s) = Some s"
| "to_str ns (JArr xs) =
     map_option join_comma
       (those (map (\<lambda>x. case x of JNull \<Rightarrow> Some [] | _ \<Rightarrow> to_str ns x) xs))"
| "to_str ns (JObj kvs) =
     (if map_of kvs ''toString'' = None then Some ''[object Object]'' else None)"

definition val_to_str :: "('n \<Rightarrow> string) \<Rightarrow> 'n jsval \<Rightarrow> string option" where
  "val_to_str ns v = (case v of None \<Rightarrow> Some ''undefined'' | Some j \<Rightarrow> to_str ns j)"

section \<open>The frame decoder: splitting on blank lines\<close>

text \<open>
  \<^verbatim>\<open>buffer.split('\n\n')\<close>: the text is scanned from the left, every occurrence of two
  consecutive newlines found by the scan ends a piece, and the pieces are returned in
  order; the result always has at least one piece (the text after the last separator,
  possibly empty).
\<close>

fun split_blank :: "string \<Rightarrow> string list" where
  "split_blank (a # b # s) =
     (if a = CHR 0x0A \<and> b = CHR 0x0A then [] # split_blank s
      else (case split_blank (b # s) of [] \<Rightarrow> [[a]] | h # t \<Rightarrow> (a # h) # t))"
| "split_blank s = [s]"

text \<open>\<^verbatim>\<open>buffer = lines.pop() || ''\<close>: the last piece, and the empty text when the array
  is empty or its last piece is the empty text.\<close>

definition pop_or_empty :: "string list \<Rightarrow> string" where
  "pop_or_empty lines = (if lines = [] then [] else if last lines = [] then [] else last lines)"

text \<open>One pass of lines 98 to 100: the carry-over buffer and the text of one read give the
  complete records of this read and the new carry-over.\<close>

definition decode_read :: "string \<Rightarrow> string \<Rightarrow> string list \<times> string" where
  "decode_read buf v = (let lines = split_blank (buf @ v) in (butlast lines, pop_or_empty lines))"

section \<open>The callbacks and the dispatch of one record\<close>

text \<open>
  The three caller-supplied callbacks are modelled by the list of calls made, in order.
  The callbacks themselves are taken not to throw (those of \<^verbatim>\<open>ChatInterface.tsx\<close> only
  set component state). The diagnostic \<^verbatim>\<open>console.error\<close> is not a callback and leaves no
  entry.
\<close>

datatype 'n call =
    OnChunk "'n jsval"
  | OnComplete "'n json" "'n json"
  | OnError "'n json"

record 'n vars =
  fullResponse :: string
  currentSessionId :: "'n jsval"

datatype 'n flow = Continue "'n vars" | Return

text \<open>
  The body of the \<^verbatim>\<open>for\<close> loop (lines 103 to 122) for one record. A record without the
  marker is skipped. \<^verbatim>\<open>JSON.parse\<close> throwing, the TypeError of \<^verbatim>\<open>data.type\<close> when the
  parsed value is \<^verbatim>\<open>null\<close>, and the TypeError of \<^verbatim>\<open>fullResponse += data.content\<close> when the
  content does not convert to text, are caught by the inner \<^verbatim>\<open>catch\<close>: the record is
  dropped and the loop goes on. In the last case line 110 throws before line 111, so
  \<^verbatim>\<open>fullResponse\<close> is unchanged and \<^verbatim>\<open>onChunk\<close> is not called.
\<close>

definition handle_line :: "'n platform \<Rightarrow> 'n vars \<Rightarrow> string \<Rightarrow> 'n call list \<times> 'n flow" where
  "handle_line P vs line =
     (if take 6 line = ''data: '' then
        (case json_parse P (drop 6 line) of
           None \<Rightarrow> ([], Continue vs)
         | Some JNull \<Rightarrow> ([], Continue vs)
         | Some data \<Rightarrow>
             if get_prop data ''type'' = Some (JStr ''session'') then
               ([], Continue (vs\<lparr>currentSessionId := get_prop data ''session_id''\<rparr>))
             else if get_prop data ''type'' = Some (JStr ''chunk'') then
               (case val_to_str (num_to_string P) (get_prop data ''content'') of
                  None \<Rightarrow> ([], Continue vs)
                | Some text \<Rightarrow>
                    ([OnChunk (get_prop data ''content'')],
                     Continue (vs\<lparr>fullResponse := fullResponse vs @ text\<rparr>)))
             else if get_prop data ''type'' = Some (JStr ''done'') then
               ([OnComplete
                   (js_or (num_truthy P) (get_prop data ''response'') (JStr (fullResponse vs)))
                   (js_or (num_truthy P) (get_prop data ''session_id'')
                      (js_or (num_truthy P) (currentSessionId vs) (JStr [])))],
                Return)
             else if get_prop data ''type'' = Some (JStr ''error'') then
               ([OnError (js_or (num_truthy P) (get_prop data ''error'') (JStr ''Unknown error''))],
                Return)
             else ([], Continue vs))
      else ([], Continue vs))"

text \<open>The \<^verbatim>\<open>for (const line of lines)\<close> loop: it stops at the first \<^verbatim>\<open>return\<close>.\<close>

fun for_lines :: "'n platform \<Rightarrow> 'n vars \<Rightarrow> string list \<Rightarrow> 'n call list \<times> 'n flow" where
  "for_lines P vs [] = ([], Continue vs)"
| "for_lines P vs (l # ls) =
     (case handle_line P vs l of
        (cs, Return) \<Rightarrow> (cs, Return)
      | (cs, Continue vs') \<Rightarrow>
          (case for_lines P vs' ls of (cs', r) \<Rightarrow> (cs @ cs', r)))"

section \<open>The read loop and the whole call\<close>

text \<open>
  What can be thrown into the outer \<^verbatim>\<open>catch\<close>: an \<^verbatim>\<open>Error\<close> with its message, or any
  other value. One \<^verbatim>\<open>reader.read()\<close> either delivers a buffer (given here by the text
  that \<^verbatim>\<open>decoder.decode(value, {stream: true})\<close> returns for it) or rejects; the end of the
  list of reads is the read that reports \<^verbatim>\<open>done\<close>. A body is a finite list of reads.
\<close>

datatype thrown = ErrorObject string | OtherValue

datatype read = Data string | ReadRejects thrown

datatype loop_exit = Broke | Returned | Threw thrown

fun read_loop ::
  "'n platform \<Rightarrow> string \<Rightarrow> 'n vars \<Rightarrow> read list \<Rightarrow> 'n call list \<times> loop_exit" where
  "read_loop P buf vs [] = ([], Broke)"
| "read_loop P buf vs (ReadRejects e # rs) = ([], Threw e)"
| "read_loop P buf vs (Data v # rs) =
     (case decode_read buf v of (lines, buf') \<Rightarrow>
        (case for_lines P vs lines of
           (cs, Return) \<Rightarrow> (cs, Returned)
         | (cs, Continue vs') \<Rightarrow>
             (case read_loop P buf' vs' rs of (cs', x) \<Rightarrow> (cs @ cs', x))))"

text \<open>
  The response of \<^verbatim>\<open>fetch\<close>: \<open>json_body\<close> is what \<^verbatim>\<open>response.json()\<close> resolves to
  (\<open>None\<close> when it rejects), \<open>body\<close> the reads of \<^verbatim>\<open>response.body\<close> (\<open>None\<close> when there is no
  body, so that no reader is obtained).
\<close>

record 'n response =
  ok :: bool
  status :: 'n
  json_body :: "'n json option"
  body :: "read list option"

datatype 'n fetched = FetchRejects thrown | FetchResolves "'n response"

definition catch_message :: "thrown \<Rightarrow> string" where
  "catch_message e = (case e of ErrorObject m \<Rightarrow> m | OtherValue \<Rightarrow> ''Network error'')"

text \<open>The caller's \<^verbatim>\<open>sessionId: string | null\<close> as a value.\<close>

definition session_value :: "string option \<Rightarrow> 'n jsval" where
  "session_value sid = (case sid of None \<Rightarrow> Some JNull | Some s \<Rightarrow> Some (JStr s))"

text \<open>
  \<^verbatim>\<open>queryAgentStream\<close>, lines 55 to 128, as the list of callback calls it makes. The question
  and the conversation id only go into the request and are left out.
\<close>

definition queryAgentStream :: "'n platform \<Rightarrow> string option \<Rightarrow> 'n fetched \<Rightarrow> 'n call list" where
  "queryAgentStream P sessionId f =
     (case f of
        FetchRejects e \<Rightarrow> [OnError (JStr (catch_message e))]
      | FetchResolves r \<Rightarrow>
          if \<not> ok r then
            (case (case json_body r of
                     None \<Rightarrow> JObj [(''detail'', JStr ''Unknown error'')]
                   | Some j \<Rightarrow> j) of
               JNull \<Rightarrow> [OnError (JStr (null_deref_message P))]
             | error \<Rightarrow>
                 [OnError (js_or (num_truthy P) (get_prop error ''detail'')
                    (JStr (''HTTP error! status: '' @ num_to_string P (status r))))])
          else
            (case body r of
               None \<Rightarrow> [OnError (JStr ''No response body'')]
             | Some reads \<Rightarrow>
                 (case read_loop P [] \<lparr>fullResponse = [], currentSessionId = session_value sessionId\<rparr> reads of
                    (cs, Threw e) \<Rightarrow> cs @ [OnError (JStr (catch_message e))]
                  | (cs, _) \<Rightarrow> cs)))"

text \<open>The loop variables as lines 85 and 86 initialise them.\<close>

definition start_vars :: "string option \<Rightarrow> 'n vars" where
  "start_vars sessionId = \<lparr>fullResponse = [], currentSessionId = session_value sessionId\<rparr>"

section \<open>Vocabulary for the properties of the stream\<close>

text \<open>
  The records the decoder hands to the dispatch over a whole body: \<open>frames\<close> runs
  \<open>decode_read\<close> read after read, as the \<^verbatim>\<open>while\<close> loop does, and collects the records of
  every read. What is left in the buffer when the reads end is not in the list.
\<close>

fun frames :: "string \<Rightarrow> string list \<Rightarrow> string list" where
  "frames buf [] = []"
| "frames buf (v # vs) = (case decode_read buf v of (lines, buf') \<Rightarrow> lines @ frames buf' vs)"

text \<open>A text holds a separator when two consecutive newlines occur in it.\<close>

fun has_blank :: "string \<Rightarrow> bool" where
  "has_blank (a # b # s) = ((a = CHR 0x0A \<and> b = CHR 0x0A) \<or> has_blank (b # s))"
| "has_blank s = False"

text \<open>
  A record is well formed for the framing when the separator that follows it is the
  first one of record plus separator: the record holds no separator and does not end in
  a newline.
\<close>

definition well_formed_record :: "string \<Rightarrow> bool" where
  "well_formed_record r = (\<not> has_blank (r @ ''\<newline>''))"

definition terminated :: "string list \<Rightarrow> string" where
  "terminated rs = concat (map (\<lambda>r. r @ ''\<newline>\<newline>'') rs)"

text \<open>What a record is to the dispatch: the parsed payload of a record with the marker,
  and the \<^verbatim>\<open>type\<close> of the payload.\<close>

definition parsed :: "'n platform \<Rightarrow> string \<Rightarrow> 'n json option" where
  "parsed P line = (if take 6 line = ''data: '' then json_parse P (drop 6 line) else None)"

definition record_type :: "'n platform \<Rightarrow> string \<Rightarrow> 'n jsval" where
  "record_type P line = (case parsed P line of None \<Rightarrow> None | Some data \<Rightarrow> get_prop data ''type'')"

definition malformed_record :: "'n platform \<Rightarrow> string \<Rightarrow> bool" where
  "malformed_record P line = (take 6 line = ''data: '' \<and> json_parse P (drop 6 line) = None)"

definition terminal_record :: "'n platform \<Rightarrow> string \<Rightarrow> bool" where
  "terminal_record P line =
     (record_type P line = Some (JStr ''done'') \<or> record_type P line = Some (JStr ''error''))"

text \<open>The content of a chunk record that is delivered: the record has type \<^verbatim>\<open>chunk\<close>
  and its content converts to text.\<close>

definition chunk_content :: "'n platform \<Rightarrow> string \<Rightarrow> 'n jsval option" where
  "chunk_content P line =
     (case parsed P line of
        None \<Rightarrow> None
      | Some data \<Rightarrow>
          if get_prop data ''type'' = Some (JStr ''chunk'')
             \<and> val_to_str (num_to_string P) (get_prop data ''content'') \<noteq> None
          then Some (get_prop data ''content'')
          else None)"

definition session_assigned :: "'n platform \<Rightarrow> string \<Rightarrow> 'n jsval option" where
  "session_assigned P line =
     (case parsed P line of
        None \<Rightarrow> None
      | Some data \<Rightarrow>
          if get_prop data ''type'' = Some (JStr ''session'') then Some (get_prop data ''session_id'')
          else None)"

text \<open>The contents of the delivered chunk records of a list of records, in order; their
  text as \<^verbatim>\<open>fullResponse\<close> accumulates it; and the session id in force after the records:
  that of the last session record, or the one in force before when there is none.\<close>

definition chunk_contents :: "'n platform \<Rightarrow> string list \<Rightarrow> 'n jsval list" where
  "chunk_contents P ls = List.map_filter (chunk_content P) ls"

definition chunk_text :: "'n platform \<Rightarrow> string list \<Rightarrow> string" where
  "chunk_text P ls = concat (List.map_filter (val_to_str (num_to_string P)) (chunk_contents P ls))"

definition last_session :: "'n platform \<Rightarrow> 'n jsval \<Rightarrow> string list \<Rightarrow> 'n jsval" where
  "last_session P cur ls =
     (case List.map_filter (session_assigned P) ls of [] \<Rightarrow> cur | xs \<Rightarrow> last xs)"

text \<open>The arguments of the first \<^verbatim>\<open>onComplete\<close> call of a list of calls.\<close>

fun completion :: "'n call list \<Rightarrow> ('n json \<times> 'n json) option" where
  "completion [] = None"
| "completion (OnComplete text sid # cs) = Some (text, sid)"
| "completion (c # cs) = completion cs"

text \<open>The sequence the orchestrator's guarantee asks for: chunk calls, then exactly one
  terminal call, then nothing.\<close>

fun chunks_then_one_terminal :: "'n call list \<Rightarrow> bool" where
  "chunks_then_one_terminal [] = False"
| "chunks_then_one_terminal (OnChunk c # cs) = chunks_then_one_terminal cs"
| "chunks_then_one_terminal (c # cs) = (cs = [])"

text \<open>The weaker sequence: chunk calls, then at most one terminal call, then nothing.\<close>

fun chunks_then_terminal_opt :: "'n call list \<Rightarrow> bool" where
  "chunks_then_terminal_opt [] = True"
| "chunks_then_terminal_opt (OnChunk c # cs) = chunks_then_terminal_opt cs"
| "chunks_then_terminal_opt (c # cs) = (cs = [])"


text \<open>
  The two places of the specification that are compared with the code below, written
  after the specification's words. The session id of the completion: the one on the done
  event if present, else the one of the most recent session event, else the caller's,
  else the empty text. The message of a non-success response: the server-supplied
  detail, or the generic HTTP-status message.
\<close>

definition spec_session_choice ::
  "('n \<Rightarrow> bool) \<Rightarrow> 'n jsval \<Rightarrow> 'n jsval list \<Rightarrow> string option \<Rightarrow> 'n json" where
  "spec_session_choice nt done_sid session_sids caller =
     js_or nt done_sid
       (js_or nt (if session_sids = [] then None else last session_sids)
          (js_or nt (session_value caller) (JStr [])))"

definition spec_error_message :: "'n platform \<Rightarrow> 'n response \<Rightarrow> 'n json" where
  "spec_error_message P r =
     js_or (num_truthy P)
       (case json_body r of None \<Rightarrow> None | Some j \<Rightarrow> get_prop j ''detail'')
       (JStr (''HTTP error! status: '' @ num_to_string P (status r)))"

section \<open>The page-lifecycle handlers of the chat component\<close>

text \<open>
  \<^verbatim>\<open>ChatInterface.tsx\<close>, lines 47 to 78: the effect installs \<^verbatim>\<open>handlePageHide\<close> only while
  \<^verbatim>\<open>sessionId\<close> is truthy. The handler's result is the list of requests it issues and the
  error that escapes it, if any. \<open>navType\<close> is the \<^verbatim>\<open>type\<close> of the first navigation-timing
  entry (\<open>None\<close> when there is no entry); \<open>outcome\<close> is how the request's promise settles.
\<close>

record request =
  req_method :: string
  req_url :: string
  req_keepalive :: bool

datatype settled = Fulfilled | Rejected thrown

definition api_url :: "string option \<Rightarrow> string" where
  "api_url env =
     (case env of None \<Rightarrow> ''http://localhost:8000''
      | Some u \<Rightarrow> if u = [] then ''http://localhost:8000'' else u)"

definition handlePageHide ::
  "string option \<Rightarrow> string \<Rightarrow> bool \<Rightarrow> string option \<Rightarrow> settled \<Rightarrow> request list \<times> thrown option" where
  "handlePageHide env sid persisted navType outcome =
     (if persisted = False then
        (let isReload = (navType = Some ''reload'') in
         if \<not> isReload then
           ([\<lparr>req_method = ''DELETE'',
              req_url = api_url env @ ''/agent/session/'' @ sid,
              req_keepalive = True\<rparr>],
            (case outcome of Fulfilled \<Rightarrow> None | Rejected e \<Rightarrow> None))
         else ([], None))
      else ([], None))"

definition on_pagehide ::
  "string option \<Rightarrow> string option \<Rightarrow> bool \<Rightarrow> string option \<Rightarrow> settled \<Rightarrow> request list \<times> thrown option" where
  "on_pagehide env session persisted navType outcome =
     (case session of
        None \<Rightarrow> ([], None)
      | Some sid \<Rightarrow> if sid = [] then ([], None) else handlePageHide env sid persisted navType outcome)"

text \<open>
  The component state that the conversation handlers touch (lines 10 to 17), and the
  handlers of lines 208 to 247. \<open>loaded\<close> is the result of the two loads of
  \<^verbatim>\<open>handleConversationSelect\<close> (\<open>None\<close> when either rejects: the \<^verbatim>\<open>catch\<close> branch logs and
  alerts, and \<^verbatim>\<open>finally\<close> clears the loading flag).
\<close>

record message =
  msg_role :: string
  msg_content :: string
  msg_timestamp :: string
  msg_id :: "string option"

record conversation =
  conv_id :: string
  conv_user_id :: string
  conv_title :: string
  conv_created_at :: string
  conv_updated_at :: string

record conversation_message =
  cm_id :: string
  cm_conversation_id :: string
  cm_role :: string
  cm_content :: string
  cm_created_at :: string

record chat_state =
  messages :: "message list"
  isLoading :: bool
  sessionId :: "string option"
  isHomePage :: bool
  currentConversationId :: "string option"
  conversationTitle :: string

definition chat_message :: "conversation_message \<Rightarrow> message" where
  "chat_message msg =
     \<lparr>msg_role = cm_role msg, msg_content = cm_content msg,
      msg_timestamp = cm_created_at msg, msg_id = Some (cm_id msg)\<rparr>"

definition handleConversationSelect ::
  "chat_state \<Rightarrow> string \<Rightarrow> (conversation \<times> conversation_message list) option \<Rightarrow> chat_state" where
  "handleConversationSelect st conversationId loaded =
     (let st1 = st\<lparr>isLoading := True, currentConversationId := Some conversationId\<rparr> in
      case loaded of
        Some (conversation, conversationMessages) \<Rightarrow>
          st1\<lparr>messages := map chat_message conversationMessages,
              isHomePage := False,
              sessionId := None,
              conversationTitle :=
                (if conv_title conversation = [] then ''Untitled Chat'' else conv_title conversation),
              isLoading := False\<rparr>
      | None \<Rightarrow> st1\<lparr>isLoading := False\<rparr>)"

definition handleNewChat :: "chat_state \<Rightarrow> chat_state" where
  "handleNewChat st =
     st\<lparr>messages := [], currentConversationId := None, conversationTitle := ''New Chat'',
        isHomePage := True, sessionId := None\<rparr>"

text \<open>
  The call of \<^verbatim>\<open>queryAgentStream\<close> that \<^verbatim>\<open>handleSubmit\<close> makes (lines 83, 92 to 102 and 142
  to 180): none when the trimmed input is empty or a stream is loading; the session
  argument is the component's \<^verbatim>\<open>sessionId\<close>. \<open>created\<close> is the id of the conversation
  that is created when there is no current one (\<open>None\<close> when the creation fails). The
  request then carries \<^verbatim>\<open>sessionId || undefined\<close> (line 71 of the API module).
\<close>

record query_call =
  q_question :: string
  q_sessionId :: "string option"
  q_conversationId :: "string option"

definition handleSubmit_call :: "chat_state \<Rightarrow> string \<Rightarrow> string option \<Rightarrow> query_call option" where
  "handleSubmit_call st trimmed created =
     (if trimmed = [] \<or> isLoading st then None
      else Some \<lparr>q_question = trimmed,
                 q_sessionId = sessionId st,
                 q_conversationId =
                   (case currentConversationId st of
                      None \<Rightarrow> created
                    | Some c \<Rightarrow> if c = [] then created else Some c)\<rparr>)"

definition request_session_id :: "string option \<Rightarrow> string option" where
  "request_session_id sid = (case sid of None \<Rightarrow> None | Some s \<Rightarrow> if s = [] then None else Some s)"

section \<open>A platform for the concrete runs\<close>

text \<open>
  Numbers are naturals printed in decimal, and the parser is a table that gives, for
  each payload text used in the concrete runs below, the value \<^verbatim>\<open>JSON.parse\<close> gives for
  it; a text outside the table (such as \<^verbatim>\<open>{oops\<close>, which is not JSON) is rejected.
\<close>

fun decimal :: "nat \<Rightarrow> string" where
  "decimal n = (if n < 10 then [''0123456789'' ! n] else decimal (n div 10) @ [''0123456789'' ! (n mod 10)])"

definition example_parse :: "string \<Rightarrow> nat json option" where
  \<open>example_parse = map_of
     [(''{"type":"session","session_id":"s1"}'',
         JObj [(''type'', JStr ''session''), (''session_id'', JStr ''s1'')]),
      (''{"type":"session","session_id":null}'',
         JObj [(''type'', JStr ''session''), (''session_id'', JNull)]),
      (''{"type":"chunk","content":"A"}'',
         JObj [(''type'', JStr ''chunk''), (''content'', JStr ''A'')]),
      (''{"type":"chunk","content":"B"}'',
         JObj [(''type'', JStr ''chunk''), (''content'', JStr ''B'')]),
      (''{"type":"chunk","content":{"toString":null}}'',
         JObj [(''type'', JStr ''chunk''), (''content'', JObj [(''toString'', JNull)])]),
      (''{"type":"done"}'', JObj [(''type'', JStr ''done'')]),
      (''{"type":"error","error":"boom"}'',
         JObj [(''type'', JStr ''error''), (''error'', JStr ''boom'')])]\<close>

definition example_platform :: "nat platform" where
  "example_platform =
     \<lparr>json_parse = example_parse, num_to_string = decimal, num_truthy = (\<lambda>n. n \<noteq> 0),
      null_deref_message = ''Cannot read properties of null''\<rparr>"


section \<open>The decoder emits the records of the stream\<close>

lemma split_blank_nonempty: "split_blank s \<noteq> []"
  by (induction s rule: split_blank.induct) (auto split: list.splits)

lemma split_blank_single: "\<not> has_blank t \<Longrightarrow> split_blank t = [t]"
  by (induction t rule: split_blank.induct) (auto split: list.splits)

lemma hd_split_blank_single: "tl (split_blank s) = [] \<Longrightarrow> split_blank s = [s]"
  apply (induction s rule: split_blank.induct)
    apply (auto split: list.splits if_splits simp: split_blank_nonempty)
  done

lemma last_split_blank: "\<not> has_blank (last (split_blank s))"
proof (induction s rule: split_blank.induct)
  case (1 x y s)
  show ?case
  proof (cases "x = CHR 0x0A \<and> y = CHR 0x0A")
    case True
    with 1 show ?thesis by (simp add: split_blank_nonempty)
  next
    case False
    obtain h t where S: "split_blank (y # s) = h # t"
      using split_blank_nonempty [of "y # s"] by (cases "split_blank (y # s)") auto
    have L: "split_blank (x # y # s) = (x # h) # t"
      using False S by simp
    have IH: "\<not> has_blank (last (h # t))"
      using 1(2) [OF False] S by simp
    show ?thesis
    proof (cases "t = []")
      case True
      with S have h: "h = y # s"
        using hd_split_blank_single [of "y # s"] by simp
      have "last (split_blank (x # y # s)) = x # y # s"
        unfolding L using True h by simp
      moreover have "\<not> has_blank (x # y # s)"
        using IH True h False by simp
      ultimately show ?thesis by simp
    next
      case nonempty: False
      have "last (split_blank (x # y # s)) = last (h # t)"
        unfolding L using nonempty by simp
      with IH show ?thesis by simp
    qed
  qed
qed simp_all

lemma split_blank_append:
  "split_blank (a @ b) = butlast (split_blank a) @ split_blank (last (split_blank a) @ b)"
proof (induction a rule: split_blank.induct)
  case (1 x y s)
  show ?case
  proof (cases "x = CHR 0x0A \<and> y = CHR 0x0A")
    case True
    with 1 show ?thesis by (simp add: split_blank_nonempty)
  next
    case False
    obtain h t where S: "split_blank (y # s) = h # t"
      using split_blank_nonempty [of "y # s"] by (cases "split_blank (y # s)") auto
    have IH: "split_blank (y # s @ b) = butlast (h # t) @ split_blank (last (h # t) @ b)"
      using 1(2) [OF False] S by simp
    have L: "split_blank (x # y # s) = (x # h) # t"
      using False S by simp
    show ?thesis
    proof (cases "t = []")
      case True
      with S have "h = y # s"
        using hd_split_blank_single [of "y # s"] by simp
      with True L show ?thesis by simp
    next
      case nonempty: False
      have "split_blank (x # y # s @ b) = (x # h) # butlast t @ split_blank (last t @ b)"
        using False IH nonempty by simp
      with L nonempty show ?thesis by simp
    qed
  qed
qed simp_all


lemma pop_or_empty_last: "lines \<noteq> [] \<Longrightarrow> pop_or_empty lines = last lines"
  by (simp add: pop_or_empty_def)

lemma frames_split:
  "split_blank buf = [buf] \<Longrightarrow> frames buf vs = butlast (split_blank (buf @ concat vs))"
proof (induction vs arbitrary: buf)
  case Nil
  then show ?case by simp
next
  case (Cons v vs)
  let ?c = "last (split_blank (buf @ v))"
  have c: "split_blank ?c = [?c]"
    by (rule split_blank_single) (rule last_split_blank)
  have "frames buf (v # vs) = butlast (split_blank (buf @ v)) @ frames ?c vs"
    by (simp add: decode_read_def Let_def pop_or_empty_last split_blank_nonempty)
  also have "\<dots> = butlast (split_blank (buf @ v)) @ butlast (split_blank (?c @ concat vs))"
    using Cons.IH [OF c] by simp
  also have "\<dots> = butlast (butlast (split_blank (buf @ v)) @ split_blank (?c @ concat vs))"
    by (simp add: butlast_append split_blank_nonempty)
  also have "\<dots> = butlast (split_blank ((buf @ v) @ concat vs))"
    by (simp only: split_blank_append [of "buf @ v" "concat vs"])
  finally show ?case by simp
qed

lemma has_blank_Cons: "has_blank s \<Longrightarrow> has_blank (a # s)"
  by (cases s) auto

lemma split_blank_record:
  "well_formed_record r \<Longrightarrow> split_blank (r @ CHR 0x0A # CHR 0x0A # s) = r # split_blank s"
proof (induction r)
  case Nil
  then show ?case by simp
next
  case (Cons a r)
  have wf: "well_formed_record r"
    using Cons.prems has_blank_Cons [of "r @ ''\<newline>''" a] by (auto simp: well_formed_record_def)
  have nb: "\<not> (a = CHR 0x0A \<and> hd (r @ ''\<newline>'') = CHR 0x0A)"
    using Cons.prems by (cases r) (auto simp: well_formed_record_def)
  show ?case
  proof (cases r)
    case Nil
    with nb show ?thesis by simp
  next
    case (Cons b r')
    with nb Cons.IH [OF wf] show ?thesis by simp
  qed
qed

lemma split_blank_terminated:
  "\<forall>r \<in> set rs. well_formed_record r \<Longrightarrow>
   split_blank (terminated rs @ t) = rs @ split_blank t"
  by (induction rs) (simp_all add: terminated_def split_blank_record)

lemma frames_records:
  assumes "concat vs = terminated rs @ t" "\<forall>r \<in> set rs. well_formed_record r" "\<not> has_blank t"
  shows "frames [] vs = rs"
proof -
  have "frames [] vs = butlast (split_blank ([] @ concat vs))"
    by (rule frames_split) simp
  also have "\<dots> = butlast (rs @ split_blank t)"
    using assms(1,2) by (simp add: split_blank_terminated)
  also have "\<dots> = rs"
    using assms(3) by (simp add: split_blank_single)
  finally show ?thesis .
qed

section \<open>The dispatch over the records of a body\<close>

lemma handle_line_cases:
  "handle_line P vs l =
     (case record_type P l of
        Some (JStr t) \<Rightarrow>
          (if t = ''session'' then ([], Continue (vs\<lparr>currentSessionId := get_prop (the (parsed P l)) ''session_id''\<rparr>))
           else if t = ''chunk'' then
             (case val_to_str (num_to_string P) (get_prop (the (parsed P l)) ''content'') of
                None \<Rightarrow> ([], Continue vs)
              | Some text \<Rightarrow>
                  ([OnChunk (get_prop (the (parsed P l)) ''content'')],
                   Continue (vs\<lparr>fullResponse := fullResponse vs @ text\<rparr>)))
           else if t = ''done'' then
             ([OnComplete
                (js_or (num_truthy P) (get_prop (the (parsed P l)) ''response'') (JStr (fullResponse vs)))
                (js_or (num_truthy P) (get_prop (the (parsed P l)) ''session_id'')
                   (js_or (num_truthy P) (currentSessionId vs) (JStr [])))], Return)
           else if t = ''error'' then
             ([OnError (js_or (num_truthy P) (get_prop (the (parsed P l)) ''error'') (JStr ''Unknown error''))], Return)
           else ([], Continue vs))
      | _ \<Rightarrow> ([], Continue vs))"
  by (auto simp: handle_line_def record_type_def parsed_def split: option.splits json.splits)


lemma handle_line_nonterminal:
  assumes "\<not> terminal_record P l"
  shows "handle_line P vs l =
     ((case chunk_content P l of None \<Rightarrow> [] | Some c \<Rightarrow> [OnChunk c]),
      Continue \<lparr>fullResponse = fullResponse vs @
                  (case chunk_content P l of None \<Rightarrow> []
                   | Some c \<Rightarrow> (case val_to_str (num_to_string P) c of None \<Rightarrow> [] | Some t \<Rightarrow> t)),
                currentSessionId =
                  (case session_assigned P l of None \<Rightarrow> currentSessionId vs | Some s \<Rightarrow> s)\<rparr>)"
  using assms
  by (auto simp: handle_line_cases terminal_record_def chunk_content_def session_assigned_def
        record_type_def split: option.splits json.splits)

lemma last_session_Nil: "last_session P cur [] = cur"
  by (simp add: last_session_def)

lemma last_session_Cons:
  "last_session P cur (l # ls) =
     last_session P (case session_assigned P l of None \<Rightarrow> cur | Some s \<Rightarrow> s) ls"
  by (auto simp: last_session_def split: option.splits list.splits)

lemma chunk_contents_Cons:
  "chunk_contents P (l # ls) =
     (case chunk_content P l of None \<Rightarrow> [] | Some c \<Rightarrow> [c]) @ chunk_contents P ls"
  by (simp add: chunk_contents_def split: option.splits)

lemma chunk_text_Cons:
  "chunk_text P (l # ls) =
     (case chunk_content P l of None \<Rightarrow> []
      | Some c \<Rightarrow> (case val_to_str (num_to_string P) c of None \<Rightarrow> [] | Some t \<Rightarrow> t))
       @ chunk_text P ls"
  by (simp add: chunk_text_def chunk_contents_Cons List.map_filter_simps split: option.splits)

lemma for_lines_nonterminal:
  "\<forall>l \<in> set ls. \<not> terminal_record P l \<Longrightarrow>
   for_lines P vs ls =
     (map OnChunk (chunk_contents P ls),
      Continue \<lparr>fullResponse = fullResponse vs @ chunk_text P ls,
                currentSessionId = last_session P (currentSessionId vs) ls\<rparr>)"
proof (induction ls arbitrary: vs)
  case Nil
  then show ?case by (simp add: chunk_contents_def chunk_text_def last_session_Nil)
next
  case (Cons l ls)
  then show ?case
    by (simp add: handle_line_nonterminal chunk_contents_Cons chunk_text_Cons last_session_Cons
          split: option.splits)
qed

lemma for_lines_append:
  "for_lines P vs (xs @ ys) =
     (case for_lines P vs xs of
        (cs, Return) \<Rightarrow> (cs, Return)
      | (cs, Continue vs') \<Rightarrow> (case for_lines P vs' ys of (cs', r) \<Rightarrow> (cs @ cs', r)))"
  by (induction xs arbitrary: vs) (auto split: prod.splits flow.splits)

lemma read_loop_frames:
  "read_loop P buf vs (map Data bs) =
     (case for_lines P vs (frames buf bs) of
        (cs, Return) \<Rightarrow> (cs, Returned)
      | (cs, Continue vs') \<Rightarrow> (cs, Broke))"
  by (induction bs arbitrary: buf vs)
     (auto simp: for_lines_append split: prod.splits flow.splits)

lemma queryAgentStream_streaming:
  assumes "ok r" "body r = Some (map Data bs)"
  shows "queryAgentStream P sid (FetchResolves r) = fst (for_lines P (start_vars sid) (frames [] bs))"
  using assms
  by (auto simp: queryAgentStream_def read_loop_frames start_vars_def split: prod.splits flow.splits)

section \<open>Framing\<close>

text \<open>
  C2. Whatever way the text of \<open>N\<close> well-formed records, each followed by its blank-line
  separator, is cut into buffers (also when the two newlines of a separator fall into
  different buffers), the decoder of \<^verbatim>\<open>queryAgentStream\<close> emits exactly these \<open>N\<close> records,
  in order, and they are the records the call dispatches.
\<close>

theorem decoder_emits_every_record:
  assumes "concat bs = terminated rs" and "\<forall>r \<in> set rs. well_formed_record r"
    and "ok r" and "body r = Some (map Data bs)"
  shows "frames [] bs = rs \<and> length (frames [] bs) = length rs
       \<and> queryAgentStream P sid (FetchResolves r) = fst (for_lines P (start_vars sid) rs)"
  using frames_records [of bs rs "[]"] assms(1,2) queryAgentStream_streaming [OF assms(3,4)]
  by simp

theorem decoder_emits_every_record_witness:
  "concat [''a\<newline>'', ''\<newline>bc\<newline>'', ''\<newline>''] = terminated [''a'', ''bc'']
   \<and> well_formed_record ''a'' \<and> well_formed_record ''bc''
   \<and> frames [] [''a\<newline>'', ''\<newline>bc\<newline>'', ''\<newline>''] = [''a'', ''bc'']"
proof -
  let ?bs = "[''a\<newline>'', ''\<newline>bc\<newline>'', ''\<newline>'']"
  let ?r = "\<lparr>ok = True, status = 200::nat, json_body = None, body = Some (map Data ?bs)\<rparr>"
  have h1: "concat ?bs = terminated [''a'', ''bc'']"
    by (simp add: terminated_def)
  have h2: "\<forall>r \<in> set [''a'', ''bc'']. well_formed_record r"
    by (simp add: well_formed_record_def)
  have h3: "ok ?r" by simp
  have h4: "body ?r = Some (map Data ?bs)" by simp
  show ?thesis
    using h1 h2 decoder_emits_every_record [OF h1 h2 h3 h4] by simp
qed

text \<open>
  C5. When the body ends in the middle of a record (a tail without separator after the
  last complete record), the decoder emits exactly the complete records, and the call
  dispatches these and nothing else: the tail is never emitted.
\<close>

theorem decoder_discards_partial_tail:
  assumes "concat bs = terminated rs @ t" and "\<forall>r \<in> set rs. well_formed_record r"
    and "\<not> has_blank t" and "ok r" and "body r = Some (map Data bs)"
  shows "frames [] bs = rs
       \<and> queryAgentStream P sid (FetchResolves r) = fst (for_lines P (start_vars sid) rs)"
  using frames_records [OF assms(1,2,3)] queryAgentStream_streaming [OF assms(4,5)] by simp

theorem decoder_discards_partial_tail_witness:
  "concat [''a\<newline>'', ''\<newline>bc\<newline>\<newline>de'', ''f\<newline>''] = terminated [''a'', ''bc''] @ ''def\<newline>''
   \<and> well_formed_record ''a'' \<and> well_formed_record ''bc''
   \<and> \<not> has_blank ''def\<newline>''
   \<and> frames [] [''a\<newline>'', ''\<newline>bc\<newline>\<newline>de'', ''f\<newline>''] = [''a'', ''bc'']"
proof -
  let ?bs = "[''a\<newline>'', ''\<newline>bc\<newline>\<newline>de'', ''f\<newline>'']"
  let ?r = "\<lparr>ok = True, status = 200::nat, json_body = None, body = Some (map Data ?bs)\<rparr>"
  have h1: "concat ?bs = terminated [''a'', ''bc''] @ ''def\<newline>''"
    by (simp add: terminated_def)
  have h2: "\<forall>r \<in> set [''a'', ''bc'']. well_formed_record r"
    by (simp add: well_formed_record_def)
  have h3: "\<not> has_blank ''def\<newline>''"
    by simp
  have h4: "ok ?r" by simp
  have h5: "body ?r = Some (map Data ?bs)" by simp
  show ?thesis
    using h1 h2 h3 decoder_discards_partial_tail [OF h1 h2 h3 h4 h5] by simp
qed

section \<open>Dispatch of the records\<close>

lemma handle_line_malformed: "malformed_record P l \<Longrightarrow> handle_line P vs l = ([], Continue vs)"
  by (simp add: handle_line_def malformed_record_def)

lemma for_lines_drop:
  assumes "\<And>vs. handle_line P vs l = ([], Continue vs)"
  shows "for_lines P vs (pre @ l # post) = for_lines P vs (pre @ post)"
  by (simp add: for_lines_append [of P vs pre] assms split: prod.splits flow.splits)

lemma handle_line_done:
  assumes "parsed P d = Some data" and "get_prop data ''type'' = Some (JStr ''done'')"
  shows "handle_line P vs d =
     ([OnComplete
         (js_or (num_truthy P) (get_prop data ''response'') (JStr (fullResponse vs)))
         (js_or (num_truthy P) (get_prop data ''session_id'')
            (js_or (num_truthy P) (currentSessionId vs) (JStr [])))], Return)"
  using assms by (simp add: handle_line_cases record_type_def)

lemma for_lines_done:
  assumes "\<forall>l \<in> set ls. \<not> terminal_record P l"
    and "parsed P d = Some data" and "get_prop data ''type'' = Some (JStr ''done'')"
  shows "for_lines P vs (ls @ d # rest) =
     (map OnChunk (chunk_contents P ls) @
      [OnComplete
         (js_or (num_truthy P) (get_prop data ''response'') (JStr (fullResponse vs @ chunk_text P ls)))
         (js_or (num_truthy P) (get_prop data ''session_id'')
            (js_or (num_truthy P) (last_session P (currentSessionId vs) ls) (JStr [])))], Return)"
  by (simp add: for_lines_append for_lines_nonterminal [OF assms(1)] handle_line_done [OF assms(2,3)])

lemma completion_after_chunks: "completion (map OnChunk xs @ c # cs) = completion (c # cs)"
  by (induction xs) simp_all

lemma js_or_falsy: "\<not> truthy nt a \<Longrightarrow> js_or nt a b = b"
  by (auto simp: js_or_def split: option.splits)

lemma handle_line_unconvertible:
  assumes "parsed P l = Some data" and "get_prop data ''type'' = Some (JStr ''chunk'')"
    and "val_to_str (num_to_string P) (get_prop data ''content'') = None"
  shows "handle_line P vs l = ([], Continue vs)"
  using assms by (simp add: handle_line_cases record_type_def)

lemma chunk_content_string:
  assumes "parsed P l = Some data" and "get_prop data ''type'' = Some (JStr ''chunk'')"
    and "get_prop data ''content'' = Some (JStr s)"
  shows "chunk_content P l = Some (Some (JStr s))
       \<and> handle_line P vs l
           = ([OnChunk (Some (JStr s))], Continue (vs\<lparr>fullResponse := fullResponse vs @ s\<rparr>))"
  using assms by (simp add: chunk_content_def handle_line_cases record_type_def val_to_str_def)

lemma chunk_text_strings:
  "chunk_contents P ls = map (\<lambda>s. Some (JStr s)) ss \<Longrightarrow> chunk_text P ls = concat ss"
proof -
  have "List.map_filter (val_to_str ns) (map (\<lambda>s. Some (JStr s)) ss) = ss" for ns :: "'a \<Rightarrow> string"
    by (induction ss) (simp_all add: List.map_filter_simps val_to_str_def)
  then show "chunk_contents P ls = map (\<lambda>s. Some (JStr s)) ss \<Longrightarrow> chunk_text P ls = concat ss"
    by (simp add: chunk_text_def)
qed

text \<open>
  C10. When the reads end before a done or error record was dispatched, the loop is left
  through \<^verbatim>\<open>break\<close> and the call returns having made only the \<^verbatim>\<open>onChunk\<close> calls of the chunk
  records that were delivered (those whose content converts to text), in order: neither
  \<^verbatim>\<open>onComplete\<close> nor \<^verbatim>\<open>onError\<close> is called.
\<close>

theorem stream_end_without_terminal:
  assumes "ok r" and "body r = Some (map Data bs)"
    and "\<forall>l \<in> set (frames [] bs). \<not> terminal_record P l"
  shows "read_loop P [] (start_vars sid) (map Data bs)
           = (map OnChunk (chunk_contents P (frames [] bs)), Broke)
       \<and> queryAgentStream P sid (FetchResolves r) = map OnChunk (chunk_contents P (frames [] bs))
       \<and> completion (queryAgentStream P sid (FetchResolves r)) = None
       \<and> chunks_then_terminal_opt (queryAgentStream P sid (FetchResolves r))
       \<and> \<not> chunks_then_one_terminal (queryAgentStream P sid (FetchResolves r))"
proof -
  have run: "queryAgentStream P sid (FetchResolves r) = map OnChunk (chunk_contents P (frames [] bs))"
    using queryAgentStream_streaming [OF assms(1,2), of P sid]
    by (simp add: for_lines_nonterminal [OF assms(3)])
  have none: "completion (map OnChunk xs) = None" for xs :: "'a jsval list"
    by (induction xs) simp_all
  have opt: "chunks_then_terminal_opt (map OnChunk xs)" for xs :: "'a jsval list"
    by (induction xs) simp_all
  have one: "\<not> chunks_then_one_terminal (map OnChunk xs)" for xs :: "'a jsval list"
    by (induction xs) simp_all
  show ?thesis
    unfolding run by (simp add: read_loop_frames for_lines_nonterminal [OF assms(3)] none opt one)
qed

theorem stream_end_without_terminal_witness:
  \<open>\<not> terminal_record example_platform ''data: {"type":"chunk","content":"A"}''
   \<and> \<not> terminal_record example_platform ''data: {"type":"chunk","content":{"toString":null}}''
   \<and> \<not> terminal_record example_platform ''data: {"type":"chunk","content":"B"}''
   \<and> queryAgentStream example_platform None
        (FetchResolves \<lparr>ok = True, status = 200, json_body = None,
           body = Some [Data ''data: {"type":"chunk","content":"A"}\<newline>\<newline>data: {"ty'',
                        Data ''pe":"chunk","content":{"toString":null}}\<newline>'',
                        Data ''\<newline>data: {"type":"chunk","content":"B"}\<newline>\<newline>data: {"type":"do'']\<rparr>)
       = [OnChunk (Some (JStr ''A'')), OnChunk (Some (JStr ''B''))]\<close>
proof -
  let ?bs = \<open>[''data: {"type":"chunk","content":"A"}\<newline>\<newline>data: {"ty'',
              ''pe":"chunk","content":{"toString":null}}\<newline>'',
              ''\<newline>data: {"type":"chunk","content":"B"}\<newline>\<newline>data: {"type":"do'']\<close>
  let ?r = "\<lparr>ok = True, status = 200::nat, json_body = None, body = Some (map Data ?bs)\<rparr>"
  have fr: \<open>frames [] ?bs = [''data: {"type":"chunk","content":"A"}'',
      ''data: {"type":"chunk","content":{"toString":null}}'',
      ''data: {"type":"chunk","content":"B"}'']\<close>
    by (simp add: decode_read_def pop_or_empty_def)
  have nt: \<open>\<not> terminal_record example_platform ''data: {"type":"chunk","content":"A"}''
     \<and> \<not> terminal_record example_platform ''data: {"type":"chunk","content":{"toString":null}}''
     \<and> \<not> terminal_record example_platform ''data: {"type":"chunk","content":"B"}''\<close>
    by (simp add: terminal_record_def record_type_def parsed_def example_platform_def example_parse_def)
  have h1: "ok ?r" by simp
  have h2: "body ?r = Some (map Data ?bs)" by simp
  have h3: "\<forall>l \<in> set (frames [] ?bs). \<not> terminal_record example_platform l"
    unfolding fr using nt by simp
  have cc: \<open>chunk_contents example_platform (frames [] ?bs) = [Some (JStr ''A''), Some (JStr ''B'')]\<close>
    unfolding fr
    by (simp add: chunk_contents_def chunk_content_def parsed_def example_platform_def
          example_parse_def List.map_filter_simps val_to_str_def)
  show ?thesis
    using nt cc stream_end_without_terminal [OF h1 h2 h3, of None] by simp
qed

text \<open>
  C7. A record with the data marker whose remainder \<^verbatim>\<open>JSON.parse\<close> rejects is dropped: its
  dispatch makes no call and changes nothing, and the call on a body with the record
  makes exactly the calls it makes on the body without it, so the records before and
  after it are dispatched as if it were not there.
\<close>

theorem malformed_record_is_skipped:
  assumes "ok r" and "body r = Some (map Data bs)"
    and "ok r'" and "body r' = Some (map Data bs')"
    and "frames [] bs = pre @ l # post" and "frames [] bs' = pre @ post"
    and "malformed_record P l"
  shows "handle_line P vs l = ([], Continue vs)
       \<and> queryAgentStream P sid (FetchResolves r) = queryAgentStream P sid (FetchResolves r')"
proof -
  have skip: "\<And>vs. handle_line P vs l = ([], Continue vs)"
    using assms(7) by (rule handle_line_malformed)
  have "for_lines P (start_vars sid) (frames [] bs) = for_lines P (start_vars sid) (frames [] bs')"
    unfolding assms(5,6) using skip by (rule for_lines_drop)
  then show ?thesis
    using skip queryAgentStream_streaming [OF assms(1,2), of P sid]
      queryAgentStream_streaming [OF assms(3,4), of P sid]
    by simp
qed

theorem malformed_record_is_skipped_witness:
  \<open>malformed_record example_platform ''data: {oops''
   \<and> queryAgentStream example_platform None
        (FetchResolves \<lparr>ok = True, status = 200, json_body = None,
           body = Some [Data ''data: {"type":"chunk","content":"A"}\<newline>\<newline>data: {oops\<newline>\<newline>'',
                        Data ''data: {"type":"chunk","content":"B"}\<newline>\<newline>'']\<rparr>)
     = queryAgentStream example_platform None
        (FetchResolves \<lparr>ok = True, status = 200, json_body = None,
           body = Some [Data ''data: {"type":"chunk","content":"A"}\<newline>\<newline>'',
                        Data ''data: {"type":"chunk","content":"B"}\<newline>\<newline>'']\<rparr>)
   \<and> queryAgentStream example_platform None
        (FetchResolves \<lparr>ok = True, status = 200, json_body = None,
           body = Some [Data ''data: {"type":"chunk","content":"A"}\<newline>\<newline>data: {oops\<newline>\<newline>'',
                        Data ''data: {"type":"chunk","content":"B"}\<newline>\<newline>'']\<rparr>)
     = [OnChunk (Some (JStr ''A'')), OnChunk (Some (JStr ''B''))]\<close>
proof -
  let ?bs = \<open>[''data: {"type":"chunk","content":"A"}\<newline>\<newline>data: {oops\<newline>\<newline>'',
              ''data: {"type":"chunk","content":"B"}\<newline>\<newline>'']\<close>
  let ?bs' = \<open>[''data: {"type":"chunk","content":"A"}\<newline>\<newline>'',
               ''data: {"type":"chunk","content":"B"}\<newline>\<newline>'']\<close>
  let ?r = "\<lparr>ok = True, status = 200::nat, json_body = None, body = Some (map Data ?bs)\<rparr>"
  let ?r' = "\<lparr>ok = True, status = 200::nat, json_body = None, body = Some (map Data ?bs')\<rparr>"
  have h1: "ok ?r" by simp
  have h2: "body ?r = Some (map Data ?bs)" by simp
  have h3: "ok ?r'" by simp
  have h4: "body ?r' = Some (map Data ?bs')" by simp
  have h5: \<open>frames [] ?bs = [''data: {"type":"chunk","content":"A"}''] @ ''data: {oops''
              # [''data: {"type":"chunk","content":"B"}'']\<close>
    by (simp add: decode_read_def pop_or_empty_def)
  have h6: \<open>frames [] ?bs' = [''data: {"type":"chunk","content":"A"}'']
              @ [''data: {"type":"chunk","content":"B"}'']\<close>
    by (simp add: decode_read_def pop_or_empty_def)
  have h7: \<open>malformed_record example_platform ''data: {oops''\<close>
    by (simp add: malformed_record_def example_platform_def example_parse_def)
  have run: \<open>queryAgentStream example_platform None (FetchResolves ?r')
      = [OnChunk (Some (JStr ''A'')), OnChunk (Some (JStr ''B''))]\<close>
    unfolding queryAgentStream_streaming [OF h3 h4] h6
    by (simp add: handle_line_def start_vars_def example_platform_def example_parse_def
          val_to_str_def)
  show ?thesis
    using h7 run malformed_record_is_skipped [OF h1 h2 h3 h4 h5 h6 h7, of _ None] by simp
qed

text \<open>
  C4. When the payload of the done record has no \<^verbatim>\<open>response\<close> (or a falsy one, such as
  the empty text), the calls are the \<^verbatim>\<open>onChunk\<close> calls of the chunk records delivered
  before it, in order, and then \<^verbatim>\<open>onComplete\<close> with the text of their contents,
  concatenated in that order. A chunk record whose content does not convert to text is
  not delivered and adds nothing. When the delivered contents are the texts \<open>ss\<close>, the
  text passed is \<open>concat ss\<close>.
\<close>

theorem completion_text_is_chunk_concatenation:
  assumes "ok r" and "body r = Some (map Data bs)"
    and "frames [] bs = ls @ d # rest"
    and "\<forall>l \<in> set ls. \<not> terminal_record P l"
    and "parsed P d = Some data" and "get_prop data ''type'' = Some (JStr ''done'')"
    and "\<not> truthy (num_truthy P) (get_prop data ''response'')"
  shows "(\<exists>sid'. queryAgentStream P sid (FetchResolves r)
           = map OnChunk (chunk_contents P ls) @ [OnComplete (JStr (chunk_text P ls)) sid'])
       \<and> (chunk_contents P ls = map (\<lambda>s. Some (JStr s)) ss \<longrightarrow>
            (\<exists>sid'. queryAgentStream P sid (FetchResolves r)
               = map (\<lambda>s. OnChunk (Some (JStr s))) ss @ [OnComplete (JStr (concat ss)) sid']))"
proof -
  have run: "\<exists>sid'. queryAgentStream P sid (FetchResolves r)
           = map OnChunk (chunk_contents P ls) @ [OnComplete (JStr (chunk_text P ls)) sid']"
    using queryAgentStream_streaming [OF assms(1,2), of P sid]
    by (simp add: assms(3) for_lines_done [OF assms(4,5,6)] js_or_falsy [OF assms(7)] start_vars_def)
  show ?thesis
  proof (intro conjI impI)
    show "\<exists>sid'. queryAgentStream P sid (FetchResolves r)
           = map OnChunk (chunk_contents P ls) @ [OnComplete (JStr (chunk_text P ls)) sid']"
      by (rule run)
  next
    assume ss: "chunk_contents P ls = map (\<lambda>s. Some (JStr s)) ss"
    have "chunk_text P ls = concat ss"
      using ss by (rule chunk_text_strings)
    with run ss show "\<exists>sid'. queryAgentStream P sid (FetchResolves r)
               = map (\<lambda>s. OnChunk (Some (JStr s))) ss @ [OnComplete (JStr (concat ss)) sid']"
      by (simp add: comp_def)
  qed
qed

theorem completion_text_is_chunk_concatenation_witness:
  \<open>\<not> terminal_record example_platform ''data: {"type":"chunk","content":"A"}''
   \<and> \<not> terminal_record example_platform ''data: {"type":"chunk","content":"B"}''
   \<and> parsed example_platform ''data: {"type":"done"}'' = Some (JObj [(''type'', JStr ''done'')])
   \<and> \<not> truthy (num_truthy example_platform) (get_prop (JObj [(''type'', JStr ''done'')]) ''response'')
   \<and> chunk_contents example_platform
        [''data: {"type":"chunk","content":"A"}'', ''data: {"type":"chunk","content":"B"}'']
       = map (\<lambda>s. Some (JStr s)) [''A'', ''B'']
   \<and> (\<exists>sid'. queryAgentStream example_platform None
        (FetchResolves \<lparr>ok = True, status = 200, json_body = None,
           body = Some [Data ''data: {"type":"chunk","content":"A"}\<newline>'',
                        Data ''\<newline>data: {"type":"chunk","content":"B"}\<newline>\<newline>data: {"type":"done"}\<newline>\<newline>'']\<rparr>)
       = [OnChunk (Some (JStr ''A'')), OnChunk (Some (JStr ''B'')), OnComplete (JStr ''AB'') sid'])\<close>
proof -
  let ?bs = \<open>[''data: {"type":"chunk","content":"A"}\<newline>'',
              ''\<newline>data: {"type":"chunk","content":"B"}\<newline>\<newline>data: {"type":"done"}\<newline>\<newline>'']\<close>
  let ?ls = \<open>[''data: {"type":"chunk","content":"A"}'', ''data: {"type":"chunk","content":"B"}'']\<close>
  let ?r = "\<lparr>ok = True, status = 200::nat, json_body = None, body = Some (map Data ?bs)\<rparr>"
  have h1: "ok ?r" by simp
  have h2: "body ?r = Some (map Data ?bs)" by simp
  have h3: \<open>frames [] ?bs = ?ls @ ''data: {"type":"done"}'' # []\<close>
    by (simp add: decode_read_def pop_or_empty_def)
  have nt: \<open>\<not> terminal_record example_platform ''data: {"type":"chunk","content":"A"}''
     \<and> \<not> terminal_record example_platform ''data: {"type":"chunk","content":"B"}''\<close>
    by (simp add: terminal_record_def record_type_def parsed_def example_platform_def example_parse_def)
  have h4: "\<forall>l \<in> set ?ls. \<not> terminal_record example_platform l"
    using nt by simp
  have h5: \<open>parsed example_platform ''data: {"type":"done"}'' = Some (JObj [(''type'', JStr ''done'')])\<close>
    by (simp add: parsed_def example_platform_def example_parse_def)
  have h6: "get_prop (JObj [(''type'', JStr ''done'')] :: nat json) ''type'' = Some (JStr ''done'')"
    by simp
  have h7: "\<not> truthy (num_truthy example_platform) (get_prop (JObj [(''type'', JStr ''done'')]) ''response'')"
    by simp
  have cc: \<open>chunk_contents example_platform ?ls = map (\<lambda>s. Some (JStr s)) [''A'', ''B'']\<close>
    by (simp add: chunk_contents_def chunk_content_def parsed_def example_platform_def
          example_parse_def List.map_filter_simps val_to_str_def)
  show ?thesis
    using nt h5 h7 cc
      completion_text_is_chunk_concatenation [OF h1 h2 h3 h4 h5 h6 h7, of None "[''A'', ''B'']"]
    by simp
qed

text \<open>
  A chunk record whose content is an object with an own \<^verbatim>\<open>toString\<close> property makes line
  110 throw: the record is dropped, and the completion text is that of the other chunks.
\<close>

lemma unconvertible_chunk_is_dropped:
  \<open>queryAgentStream example_platform None
      (FetchResolves \<lparr>ok = True, status = 200, json_body = None,
         body = Some [Data ''data: {"type":"chunk","content":{"toString":null}}\<newline>\<newline>data: {"type":"done"}\<newline>\<newline>'']\<rparr>)
     = [OnComplete (JStr []) (JStr [])]
   \<and> queryAgentStream example_platform None
      (FetchResolves \<lparr>ok = True, status = 200, json_body = None,
         body = Some [Data ''data: {"type":"chunk","content":"A"}\<newline>\<newline>data: {"type":"chunk","content":{"toString":null}}\<newline>\<newline>'',
                      Data ''data: {"type":"chunk","content":"B"}\<newline>\<newline>data: {"type":"done"}\<newline>\<newline>'']\<rparr>)
     = [OnChunk (Some (JStr ''A'')), OnChunk (Some (JStr ''B'')), OnComplete (JStr ''AB'') (JStr [])]\<close>
  by (simp add: queryAgentStream_def decode_read_def pop_or_empty_def handle_line_def
        example_platform_def example_parse_def val_to_str_def js_or_def session_value_def)

lemma last_session_spec:
  assumes "\<forall>s \<in> set (List.map_filter (session_assigned P) ls). truthy nt s"
  shows "js_or nt d (js_or nt (last_session P (session_value caller) ls) (JStr []))
       = spec_session_choice nt d (List.map_filter (session_assigned P) ls) caller"
proof (cases "List.map_filter (session_assigned P) ls = []")
  case True
  then show ?thesis
    by (simp add: spec_session_choice_def last_session_def js_or_def)
next
  case False
  let ?x = "last (List.map_filter (session_assigned P) ls)"
  from assms False have t: "truthy nt ?x"
    by simp
  have cur: "last_session P (session_value caller) ls = ?x"
    using False by (simp add: last_session_def split: list.splits)
  have "js_or nt ?x (JStr []) = js_or nt ?x (js_or nt (session_value caller) (JStr []))"
    using t by (auto simp: js_or_def split: option.splits)
  then show ?thesis
    using False by (simp add: cur spec_session_choice_def)
qed

text \<open>
  C3, as amended. The session id passed to \<^verbatim>\<open>onComplete\<close> is the one on the done record
  when that is truthy; else the current session id when that is truthy, where the
  current session id is the \<^verbatim>\<open>session_id\<close> of the most recent session record when the
  stream had a session record before the done record, and the caller's id only when it
  had none; else the empty text. When every session record carries a truthy id this is
  the precedence in the specification's words.
\<close>

theorem completion_session_precedence:
  assumes "ok r" and "body r = Some (map Data bs)"
    and "frames [] bs = ls @ d # rest"
    and "\<forall>l \<in> set ls. \<not> terminal_record P l"
    and "parsed P d = Some data" and "get_prop data ''type'' = Some (JStr ''done'')"
  shows "map_option snd (completion (queryAgentStream P sid (FetchResolves r)))
           = Some (js_or (num_truthy P) (get_prop data ''session_id'')
                    (js_or (num_truthy P) (last_session P (session_value sid) ls) (JStr [])))
       \<and> ((\<forall>s \<in> set (List.map_filter (session_assigned P) ls). truthy (num_truthy P) s) \<longrightarrow>
            map_option snd (completion (queryAgentStream P sid (FetchResolves r)))
              = Some (spec_session_choice (num_truthy P) (get_prop data ''session_id'')
                       (List.map_filter (session_assigned P) ls) sid))"
proof -
  have code: "map_option snd (completion (queryAgentStream P sid (FetchResolves r)))
           = Some (js_or (num_truthy P) (get_prop data ''session_id'')
                    (js_or (num_truthy P) (last_session P (session_value sid) ls) (JStr [])))"
    using queryAgentStream_streaming [OF assms(1,2), of P sid]
    by (simp add: assms(3) for_lines_done [OF assms(4,5,6)] completion_after_chunks start_vars_def)
  show ?thesis
  proof (intro conjI impI)
    show "map_option snd (completion (queryAgentStream P sid (FetchResolves r)))
           = Some (js_or (num_truthy P) (get_prop data ''session_id'')
                    (js_or (num_truthy P) (last_session P (session_value sid) ls) (JStr [])))"
      by (rule code)
  next
    assume "\<forall>s \<in> set (List.map_filter (session_assigned P) ls). truthy (num_truthy P) s"
    then show "map_option snd (completion (queryAgentStream P sid (FetchResolves r)))
              = Some (spec_session_choice (num_truthy P) (get_prop data ''session_id'')
                       (List.map_filter (session_assigned P) ls) sid)"
      unfolding code by (simp only: last_session_spec)
  qed
qed

theorem completion_session_precedence_witness:
  \<open>\<not> terminal_record example_platform ''data: {"type":"session","session_id":"s1"}''
   \<and> \<not> terminal_record example_platform ''data: {"type":"chunk","content":"A"}''
   \<and> parsed example_platform ''data: {"type":"done"}'' = Some (JObj [(''type'', JStr ''done'')])
   \<and> truthy (num_truthy example_platform) (Some (JStr ''s1''))
   \<and> map_option snd (completion (queryAgentStream example_platform (Some ''s0'')
        (FetchResolves \<lparr>ok = True, status = 200, json_body = None,
           body = Some [Data ''data: {"type":"session","session_id":"s1"}\<newline>\<newline>data: {"type":"chunk","content":"A"}\<newline>\<newline>'',
                        Data ''data: {"type":"done"}\<newline>\<newline>'']\<rparr>)))
       = Some (JStr ''s1'')
   \<and> spec_session_choice (num_truthy example_platform) None [Some (JStr ''s1'')] (Some ''s0'')
       = JStr ''s1''\<close>
proof -
  let ?bs = \<open>[''data: {"type":"session","session_id":"s1"}\<newline>\<newline>data: {"type":"chunk","content":"A"}\<newline>\<newline>'',
              ''data: {"type":"done"}\<newline>\<newline>'']\<close>
  let ?ls = \<open>[''data: {"type":"session","session_id":"s1"}'', ''data: {"type":"chunk","content":"A"}'']\<close>
  let ?r = "\<lparr>ok = True, status = 200::nat, json_body = None, body = Some (map Data ?bs)\<rparr>"
  have h1: "ok ?r" by simp
  have h2: "body ?r = Some (map Data ?bs)" by simp
  have h3: \<open>frames [] ?bs = ?ls @ ''data: {"type":"done"}'' # []\<close>
    by (simp add: decode_read_def pop_or_empty_def)
  have nt: \<open>\<not> terminal_record example_platform ''data: {"type":"session","session_id":"s1"}''
     \<and> \<not> terminal_record example_platform ''data: {"type":"chunk","content":"A"}''\<close>
    by (simp add: terminal_record_def record_type_def parsed_def example_platform_def example_parse_def)
  have h4: "\<forall>l \<in> set ?ls. \<not> terminal_record example_platform l"
    using nt by simp
  have h5: \<open>parsed example_platform ''data: {"type":"done"}'' = Some (JObj [(''type'', JStr ''done'')])\<close>
    by (simp add: parsed_def example_platform_def example_parse_def)
  have h6: "get_prop (JObj [(''type'', JStr ''done'')] :: nat json) ''type'' = Some (JStr ''done'')"
    by simp
  have ss: \<open>List.map_filter (session_assigned example_platform) ?ls = [Some (JStr ''s1'')]\<close>
    by (simp add: session_assigned_def parsed_def example_platform_def
          example_parse_def List.map_filter_simps)
  have ls: \<open>last_session example_platform (session_value (Some ''s0'')) ?ls = Some (JStr ''s1'')\<close>
    unfolding last_session_def ss by simp
  have tr: "truthy (num_truthy example_platform) (Some (JStr ''s1''))"
    by simp
  have sp: "spec_session_choice (num_truthy example_platform) None [Some (JStr ''s1'')] (Some ''s0'')
       = JStr ''s1''"
    by (simp add: spec_session_choice_def js_or_def)
  have "map_option snd (completion (queryAgentStream example_platform (Some ''s0'') (FetchResolves ?r)))
       = Some (JStr ''s1'')"
    using completion_session_precedence [OF h1 h2 h3 h4 h5 h6, of "Some ''s0''"]
    unfolding ls by (simp add: js_or_def)
  with nt h5 tr sp show ?thesis by simp
qed

text \<open>
  C3 as the specification words it fails when a session record carries no usable id:
  the caller supplied \<^verbatim>\<open>s0\<close>, the stream holds a session record whose \<^verbatim>\<open>session_id\<close> is
  \<^verbatim>\<open>null\<close> and a done record without \<^verbatim>\<open>session_id\<close>. The specification's precedence
  falls back to the caller's \<^verbatim>\<open>s0\<close>; the code passes the empty text.
\<close>

theorem completion_session_counterexample:
  \<open>map_option snd (completion (queryAgentStream example_platform (Some ''s0'')
        (FetchResolves \<lparr>ok = True, status = 200, json_body = None,
           body = Some [Data ''data: {"type":"session","session_id":null}\<newline>\<newline>data: {"type":"done"}\<newline>\<newline>'']\<rparr>)))
     = Some (JStr [])
   \<and> spec_session_choice (num_truthy example_platform)
        (get_prop (JObj [(''type'', JStr ''done'')]) ''session_id'')
        (List.map_filter (session_assigned example_platform)
           [''data: {"type":"session","session_id":null}''])
        (Some ''s0'')
     = JStr ''s0''\<close>
proof -
  have sp: \<open>spec_session_choice (num_truthy example_platform)
        (get_prop (JObj [(''type'', JStr ''done'')]) ''session_id'')
        (List.map_filter (session_assigned example_platform)
           [''data: {"type":"session","session_id":null}''])
        (Some ''s0'')
     = JStr ''s0''\<close>
    by (simp add: spec_session_choice_def js_or_def session_assigned_def parsed_def
          example_platform_def example_parse_def List.map_filter_simps session_value_def)
  have run: \<open>queryAgentStream example_platform (Some ''s0'')
        (FetchResolves \<lparr>ok = True, status = 200, json_body = None,
           body = Some [Data ''data: {"type":"session","session_id":null}\<newline>\<newline>data: {"type":"done"}\<newline>\<newline>'']\<rparr>)
     = [OnComplete (JStr []) (JStr [])]\<close>
    by (simp add: queryAgentStream_def decode_read_def pop_or_empty_def handle_line_def
          example_platform_def example_parse_def js_or_def session_value_def)
  show ?thesis
    unfolding run using sp by simp
qed

section \<open>The sequence of callback calls\<close>

lemma handle_line_shape:
  "(\<exists>vs'. handle_line P vs l = ([], Continue vs'))
   \<or> (\<exists>c vs'. handle_line P vs l = ([OnChunk c], Continue vs'))
   \<or> (\<exists>a b. handle_line P vs l = ([OnComplete a b], Return))
   \<or> (\<exists>e. handle_line P vs l = ([OnError e], Return))"
  by (auto simp: handle_line_cases split: option.splits json.splits)

lemma for_lines_shape:
  "(\<exists>xs vs'. for_lines P vs ls = (map OnChunk xs, Continue vs'))
   \<or> (\<exists>xs a b. for_lines P vs ls = (map OnChunk xs @ [OnComplete a b], Return))
   \<or> (\<exists>xs e. for_lines P vs ls = (map OnChunk xs @ [OnError e], Return))"
proof (induction ls arbitrary: vs)
  case Nil
  have "for_lines P vs [] = (map OnChunk [], Continue vs)" by simp
  then show ?case by blast
next
  case (Cons l ls)
  consider vs' where "handle_line P vs l = ([], Continue vs')"
    | c vs' where "handle_line P vs l = ([OnChunk c], Continue vs')"
    | a b where "handle_line P vs l = ([OnComplete a b], Return)"
    | e where "handle_line P vs l = ([OnError e], Return)"
    using handle_line_shape [of P vs l] by blast
  then show ?case
  proof cases
    case 1
    with Cons.IH [of vs'] show ?thesis by auto
  next
    case 2
    from Cons.IH [of vs'] show ?thesis
    proof (elim disjE exE)
      fix xs vs''
      assume "for_lines P vs' ls = (map OnChunk xs, Continue vs'')"
      with 2 have "for_lines P vs (l # ls) = (map OnChunk (c # xs), Continue vs'')" by simp
      then show ?thesis by blast
    next
      fix xs a b
      assume "for_lines P vs' ls = (map OnChunk xs @ [OnComplete a b], Return)"
      with 2 have "for_lines P vs (l # ls) = (map OnChunk (c # xs) @ [OnComplete a b], Return)" by simp
      then show ?thesis by blast
    next
      fix xs e
      assume "for_lines P vs' ls = (map OnChunk xs @ [OnError e], Return)"
      with 2 have "for_lines P vs (l # ls) = (map OnChunk (c # xs) @ [OnError e], Return)" by simp
      then show ?thesis by blast
    qed
  next
    case 3
    then have "for_lines P vs (l # ls) = (map OnChunk [] @ [OnComplete a b], Return)" by simp
    then show ?thesis by blast
  next
    case 4
    then have "for_lines P vs (l # ls) = (map OnChunk [] @ [OnError e], Return)" by simp
    then show ?thesis by blast
  qed
qed

lemma read_loop_shape:
  "(\<exists>xs. read_loop P buf vs rs = (map OnChunk xs, Broke))
   \<or> (\<exists>xs e. read_loop P buf vs rs = (map OnChunk xs, Threw e))
   \<or> (\<exists>xs t. read_loop P buf vs rs = (map OnChunk xs @ [t], Returned) \<and> (\<forall>c. t \<noteq> OnChunk c))"
proof (induction rs arbitrary: buf vs)
  case Nil
  have "read_loop P buf vs [] = (map OnChunk [], Broke)" by simp
  then show ?case by blast
next
  case (Cons rd rs)
  show ?case
  proof (cases rd)
    case (ReadRejects e)
    then have "read_loop P buf vs (rd # rs) = (map OnChunk [], Threw e)" by simp
    then show ?thesis by blast
  next
    case (Data v)
    obtain lines buf' where d: "decode_read buf v = (lines, buf')"
      by (cases "decode_read buf v")
    consider xs vs' where "for_lines P vs lines = (map OnChunk xs, Continue vs')"
      | xs t where "for_lines P vs lines = (map OnChunk xs @ [t], Return)" "\<forall>c. t \<noteq> OnChunk c"
      using for_lines_shape [of P vs lines] by fastforce
    then show ?thesis
    proof cases
      case 1
      from Cons.IH [of buf' vs'] show ?thesis
      proof (elim disjE exE conjE)
        fix ys
        assume "read_loop P buf' vs' rs = (map OnChunk ys, Broke)"
        with 1 d Data have "read_loop P buf vs (rd # rs) = (map OnChunk (xs @ ys), Broke)" by simp
        then show ?thesis by blast
      next
        fix ys e
        assume "read_loop P buf' vs' rs = (map OnChunk ys, Threw e)"
        with 1 d Data have "read_loop P buf vs (rd # rs) = (map OnChunk (xs @ ys), Threw e)" by simp
        then show ?thesis by blast
      next
        fix ys t
        assume "read_loop P buf' vs' rs = (map OnChunk ys @ [t], Returned)" "\<forall>c. t \<noteq> OnChunk c"
        with 1 d Data have "read_loop P buf vs (rd # rs) = (map OnChunk (xs @ ys) @ [t], Returned)
            \<and> (\<forall>c. t \<noteq> OnChunk c)" by simp
        then show ?thesis by blast
      qed
    next
      case 2
      with d Data have "read_loop P buf vs (rd # rs) = (map OnChunk xs @ [t], Returned)
          \<and> (\<forall>c. t \<noteq> OnChunk c)" by simp
      then show ?thesis by blast
    qed
  qed
qed

lemma terminal_opt_chunks: "chunks_then_terminal_opt (map OnChunk xs @ cs) = chunks_then_terminal_opt cs"
  by (induction xs) simp_all

lemma terminal_opt_single: "chunks_then_terminal_opt [t]"
  by (cases t) simp_all

text \<open>
  What holds of every call: the calls are chunk calls followed by at most one terminal
  call, and nothing follows a terminal call.
\<close>

lemma calls_are_chunks_then_at_most_one_terminal:
  "chunks_then_terminal_opt (queryAgentStream P sid f)"
proof (cases f)
  case (FetchRejects e)
  then show ?thesis by (simp add: queryAgentStream_def)
next
  case (FetchResolves r)
  show ?thesis
  proof (cases "ok r")
    case False
    with FetchResolves show ?thesis
      by (simp add: queryAgentStream_def split: option.splits json.splits)
  next
    case True
    show ?thesis
    proof (cases "body r")
      case None
      with True FetchResolves show ?thesis by (simp add: queryAgentStream_def)
    next
      case (Some reads)
      let ?run = "read_loop P [] \<lparr>fullResponse = [], currentSessionId = session_value sid\<rparr> reads"
      have q: "queryAgentStream P sid f =
          (case ?run of (cs, Threw e) \<Rightarrow> cs @ [OnError (JStr (catch_message e))] | (cs, _) \<Rightarrow> cs)"
        using True Some FetchResolves by (simp add: queryAgentStream_def)
      consider xs where "?run = (map OnChunk xs, Broke)"
        | xs e where "?run = (map OnChunk xs, Threw e)"
        | xs t where "?run = (map OnChunk xs @ [t], Returned)"
        using read_loop_shape [of P "[]" _ reads] by blast
      then show ?thesis
      proof cases
        case 1
        then show ?thesis
          unfolding q using terminal_opt_chunks [of xs "[]"] by simp
      next
        case 2
        then show ?thesis
          unfolding q by (simp add: terminal_opt_chunks)
      next
        case 3
        then show ?thesis
          unfolding q by (simp add: terminal_opt_chunks terminal_opt_single)
      qed
    qed
  qed
qed

text \<open>
  C1. The guarantee asks for exactly one terminal call in every call. The code makes
  none when the body ends before a done or error record: on a successful response whose
  body holds one chunk record and then ends, the only call is that \<^verbatim>\<open>onChunk\<close>, and the
  sequence is not chunk calls followed by exactly one terminal call.
\<close>

theorem stream_end_makes_no_terminal_call:
  \<open>queryAgentStream example_platform None
      (FetchResolves \<lparr>ok = True, status = 200, json_body = None,
         body = Some [Data ''data: {"type":"chunk","content":"A"}\<newline>\<newline>'']\<rparr>)
     = [OnChunk (Some (JStr ''A''))]
   \<and> \<not> chunks_then_one_terminal (queryAgentStream example_platform None
      (FetchResolves \<lparr>ok = True, status = 200, json_body = None,
         body = Some [Data ''data: {"type":"chunk","content":"A"}\<newline>\<newline>'']\<rparr>))\<close>
proof -
  have run: \<open>queryAgentStream example_platform None
      (FetchResolves \<lparr>ok = True, status = 200, json_body = None,
         body = Some [Data ''data: {"type":"chunk","content":"A"}\<newline>\<newline>'']\<rparr>)
     = [OnChunk (Some (JStr ''A''))]\<close>
    by (simp add: queryAgentStream_def decode_read_def pop_or_empty_def handle_line_def
          example_platform_def example_parse_def val_to_str_def)
  show ?thesis
    unfolding run by simp
qed

section \<open>A non-success response\<close>

text \<open>
  C6, as amended. On a response that is not ok, \<^verbatim>\<open>onError\<close> is the only call, made once:
  with \<^verbatim>\<open>Unknown error\<close> when the error body is not JSON, with the server's \<^verbatim>\<open>detail\<close> when
  the body has a truthy one, with the generic HTTP-status message otherwise (and with
  the TypeError's message when the body is JSON \<^verbatim>\<open>null\<close>). The calls depend neither on the
  streaming body nor on the record parser nor on the session id: no record is parsed.
\<close>

theorem non_success_short_circuits:
  assumes "\<not> ok r"
  shows "queryAgentStream P sid (FetchResolves r) =
           [OnError (case json_body r of
                       None \<Rightarrow> JStr ''Unknown error''
                     | Some JNull \<Rightarrow> JStr (null_deref_message P)
                     | Some j \<Rightarrow> js_or (num_truthy P) (get_prop j ''detail'')
                                 (JStr (''HTTP error! status: '' @ num_to_string P (status r))))]
       \<and> queryAgentStream (P\<lparr>json_parse := pr\<rparr>) sid' (FetchResolves (r\<lparr>body := b\<rparr>))
           = queryAgentStream P sid (FetchResolves r)"
  using assms
  by (auto simp: queryAgentStream_def js_or_def split: option.splits json.splits)

theorem non_success_short_circuits_witness:
  \<open>\<not> ok \<lparr>ok = False, status = 500::nat, json_body = Some (JObj [(''detail'', JStr ''Agent unavailable'')]),
          body = Some [Data ''data: {"type":"chunk","content":"A"}\<newline>\<newline>'']\<rparr>
   \<and> queryAgentStream example_platform None
        (FetchResolves \<lparr>ok = False, status = 500, json_body = Some (JObj [(''detail'', JStr ''Agent unavailable'')]),
           body = Some [Data ''data: {"type":"chunk","content":"A"}\<newline>\<newline>'']\<rparr>)
       = [OnError (JStr ''Agent unavailable'')]
   \<and> queryAgentStream example_platform None
        (FetchResolves \<lparr>ok = False, status = 404, json_body = Some (JObj []), body = None\<rparr>)
       = [OnError (JStr ''HTTP error! status: 404'')]\<close>
proof -
  let ?r = \<open>\<lparr>ok = False, status = 500::nat, json_body = Some (JObj [(''detail'', JStr ''Agent unavailable'')]),
          body = Some [Data ''data: {"type":"chunk","content":"A"}\<newline>\<newline>'']\<rparr>\<close>
  let ?r' = "\<lparr>ok = False, status = 404::nat, json_body = Some (JObj []), body = None\<rparr>"
  have h: "\<not> ok ?r" by simp
  have h': "\<not> ok ?r'" by simp
  have d: "decimal 404 = ''404''" by simp
  show ?thesis
    using h non_success_short_circuits [OF h, of example_platform None]
      non_success_short_circuits [OF h', of example_platform None] d
    by (simp add: js_or_def example_platform_def)
qed

text \<open>
  C6 as the specification words it (the message is the server's detail or the generic
  HTTP-status message) fails on an error body that is not JSON, such as the HTML page of
  a gateway: the message is \<^verbatim>\<open>Unknown error\<close>.
\<close>

theorem non_success_message_counterexample:
  \<open>queryAgentStream example_platform None
      (FetchResolves \<lparr>ok = False, status = 502, json_body = None, body = None\<rparr>)
     = [OnError (JStr ''Unknown error'')]
   \<and> spec_error_message example_platform
        \<lparr>ok = False, status = 502, json_body = None, body = None\<rparr>
     = JStr ''HTTP error! status: 502''\<close>
proof -
  have d: "decimal 502 = ''502''" by simp
  show ?thesis
    using d by (simp add: queryAgentStream_def spec_error_message_def js_or_def example_platform_def)
qed

section \<open>Page hide and conversation switches\<close>

text \<open>
  C8. On a page-hide event while a session id is active: when the navigation type of the
  current load is \<^verbatim>\<open>reload\<close>, no request is issued; for every other navigation type (also
  when there is no navigation entry), with the page not kept for restore, exactly one
  request is issued, the keep-alive \<^verbatim>\<open>DELETE\<close> of the active session, and nothing escapes
  the handler however that request settles.
\<close>

theorem pagehide_deletes_unless_reload:
  assumes "s \<noteq> []"
  shows "(navType = Some ''reload'' \<longrightarrow>
            on_pagehide env (Some s) persisted navType outcome = ([], None))
       \<and> (navType \<noteq> Some ''reload'' \<and> \<not> persisted \<longrightarrow>
            on_pagehide env (Some s) persisted navType outcome
              = ([\<lparr>req_method = ''DELETE'', req_url = api_url env @ ''/agent/session/'' @ s,
                   req_keepalive = True\<rparr>], None))"
  using assms
  by (auto simp: on_pagehide_def handlePageHide_def split: settled.splits)

theorem pagehide_deletes_unless_reload_witness:
  "''s1'' \<noteq> []
   \<and> on_pagehide None (Some ''s1'') False (Some ''reload'') (Rejected OtherValue) = ([], None)
   \<and> Some ''navigate'' \<noteq> Some ''reload''
   \<and> on_pagehide None (Some ''s1'') False (Some ''navigate'') (Rejected OtherValue)
       = ([\<lparr>req_method = ''DELETE'', req_url = ''http://localhost:8000/agent/session/s1'',
            req_keepalive = True\<rparr>], None)"
proof -
  have h: "''s1'' \<noteq> []" by simp
  show ?thesis
    using pagehide_deletes_unless_reload [OF h, of "Some ''reload''" None False "Rejected OtherValue"]
      pagehide_deletes_unless_reload [OF h, of "Some ''navigate''" None False "Rejected OtherValue"]
    by (simp add: api_url_def)
qed

lemma handleNewChat_resets_session: "sessionId (handleNewChat st) = None"
  by (simp add: handleNewChat_def)

lemma submit_after_reset_has_no_session:
  assumes "sessionId st = None" and "handleSubmit_call st q created = Some call"
  shows "q_sessionId call = None \<and> request_session_id (q_sessionId call) = None"
  using assms by (auto simp: handleSubmit_call_def request_session_id_def split: if_splits)

lemma handleConversationSelect_loaded_resets_session:
  "sessionId (handleConversationSelect st c (Some loaded)) = None"
  by (simp add: handleConversationSelect_def Let_def split: prod.splits)

text \<open>
  C9. Starting a new chat resets the session id, and so does selecting a conversation
  whose load succeeds. When the load fails the selection has already replaced the
  current conversation id, and the session id of the previous conversation is kept: the
  next submitted question goes out with the old session id and the new conversation id.
\<close>

theorem failed_conversation_load_keeps_session:
  "currentConversationId (handleConversationSelect
      \<lparr>messages = [], isLoading = False, sessionId = Some ''s1'', isHomePage = False,
       currentConversationId = Some ''c1'', conversationTitle = ''First''\<rparr> ''c2'' None) = Some ''c2''
   \<and> sessionId (handleConversationSelect
      \<lparr>messages = [], isLoading = False, sessionId = Some ''s1'', isHomePage = False,
       currentConversationId = Some ''c1'', conversationTitle = ''First''\<rparr> ''c2'' None) = Some ''s1''
   \<and> handleSubmit_call (handleConversationSelect
      \<lparr>messages = [], isLoading = False, sessionId = Some ''s1'', isHomePage = False,
       currentConversationId = Some ''c1'', conversationTitle = ''First''\<rparr> ''c2'' None) ''hello'' None
       = Some \<lparr>q_question = ''hello'', q_sessionId = Some ''s1'', q_conversationId = Some ''c2''\<rparr>
   \<and> request_session_id (Some ''s1'') = Some ''s1''"
  by (simp add: handleConversationSelect_def handleSubmit_call_def request_session_id_def)

end
